theory Spec2Isabelle
  imports Complex_Main
begin

section \<open>Gradient boosting over regression trees (models/gradient_boosting_tree.py)\<close>

text \<open>
  The module defines the abstract class \<open>GradientBoostingTree\<close> with the methods
  \<open>fit\<close> and \<open>predict\<close>, and its two subclasses \<open>GradientBoostingClassifier\<close> and
  \<open>GradientBoostingRegressor\<close>, which supply \<open>_compute_residuals\<close>,
  \<open>_initial_prediction\<close> and \<open>_interpret_prediction\<close>.

  Numbers. The source computes with numpy's float64. The model computes with exact reals
  and keeps one special value, \<open>NaN\<close>: in exact arithmetic the only operation of this
  module that leaves the reals on real inputs is \<open>np.mean\<close> of an empty vector (0/0, which
  numpy answers with nan and a warning, not with an exception). Rounding error, overflow and
  the infinities of float64 are outside the model.

  Arrays. A one-dimensional numpy array is a list; the feature matrix is the list of its
  rows, so \<open>X.shape[0]\<close> is \<open>length X\<close>.
\<close>

subsection \<open>Scalars\<close>

datatype npfloat = NaN | Fin real

fun fadd :: "npfloat \<Rightarrow> npfloat \<Rightarrow> npfloat" where
  "fadd (Fin x) (Fin y) = Fin (x + y)"
| "fadd _ _ = NaN"

fun fsub :: "npfloat \<Rightarrow> npfloat \<Rightarrow> npfloat" where
  "fsub (Fin x) (Fin y) = Fin (x - y)"
| "fsub _ _ = NaN"

fun fmul :: "npfloat \<Rightarrow> npfloat \<Rightarrow> npfloat" where
  "fmul (Fin x) (Fin y) = Fin (x * y)"
| "fmul _ _ = NaN"

text \<open>
  Division: 0/0 is nan. A nonzero value over 0 is an infinity in numpy, which the model
  does not have; the three divisions of the module (in \<open>np.mean\<close>, in the sigmoid and in
  the log-odds) never divide a nonzero value by 0, see \<open>sigmoid_Fin\<close> and
  \<open>classifier_initial_prediction_Fin\<close>.
\<close>

fun fdiv :: "npfloat \<Rightarrow> npfloat \<Rightarrow> npfloat" where
  "fdiv (Fin x) (Fin y) = (if y = 0 then NaN else Fin (x / y))"
| "fdiv _ _ = NaN"

fun fneg :: "npfloat \<Rightarrow> npfloat" where
  "fneg (Fin x) = Fin (- x)"
| "fneg NaN = NaN"

fun fexp :: "npfloat \<Rightarrow> npfloat" where
  "fexp (Fin x) = Fin (exp x)"
| "fexp NaN = NaN"

text \<open>
  \<open>np.log\<close>: nan on a negative argument and on nan. The logarithm of 0 is an infinity
  in numpy; the model has NaN there, and the module never takes it: its one logarithm is of
  a positive value, see \<open>log_odds_Fin\<close>.
\<close>

fun flog :: "npfloat \<Rightarrow> npfloat" where
  "flog (Fin x) = (if 0 < x then Fin (ln x) else NaN)"
| "flog NaN = NaN"

text \<open>\<open>np.clip(a, a_min, a_max)\<close> is \<open>minimum(a_max, maximum(a, a_min))\<close>; nan stays nan.\<close>

fun np_clip :: "npfloat \<Rightarrow> real \<Rightarrow> real \<Rightarrow> npfloat" where
  "np_clip (Fin x) a_min a_max = Fin (min a_max (max x a_min))"
| "np_clip NaN a_min a_max = NaN"

text \<open>
  \<open>np.round(x, 0)\<close> rounds to the nearest integer, and a value halfway between two
  integers to the even one.
\<close>

definition round_half_even :: "real \<Rightarrow> real" where
  "round_half_even x =
     (let f = \<lfloor>x\<rfloor>; d = x - of_int f
      in if d < 1 / 2 then of_int f
         else if 1 / 2 < d then of_int (f + 1)
         else if even f then of_int f else of_int (f + 1))"

fun np_round :: "npfloat \<Rightarrow> npfloat" where
  "np_round (Fin x) = Fin (round_half_even x)"
| "np_round NaN = NaN"

subsection \<open>Arrays\<close>

datatype error = AttributeError | ValueError

text \<open>
  \<open>np.mean\<close> of a vector: the sum over the number of entries; of an empty vector, nan.
\<close>

definition np_sum :: "npfloat list \<Rightarrow> npfloat" where
  "np_sum v = foldl fadd (Fin 0) v"

definition np_mean :: "npfloat list \<Rightarrow> npfloat" where
  "np_mean v = (if v = [] then NaN else fdiv (np_sum v) (Fin (real (length v))))"

text \<open>
  A binary operation on two vectors, under numpy's broadcasting: equal lengths combine
  pointwise, a vector of length 1 is stretched, anything else raises ValueError.
\<close>

definition broadcast2 ::
  "(npfloat \<Rightarrow> npfloat \<Rightarrow> npfloat) \<Rightarrow> npfloat list \<Rightarrow> npfloat list \<Rightarrow> error + npfloat list" where
  "broadcast2 f a b =
     (if length a = length b then Inr (map2 f a b)
      else if length b = 1 then Inr (map (\<lambda>x. f x (hd b)) a)
      else if length a = 1 then Inr (map (\<lambda>y. f (hd a) y) b)
      else Inl ValueError)"

text \<open>
  \<open>out += v\<close> on arrays: the shape of \<open>out\<close> is fixed, so \<open>v\<close> has the length of
  \<open>out\<close> or length 1; anything else raises ValueError.
\<close>

definition iadd :: "npfloat list \<Rightarrow> npfloat list \<Rightarrow> error + npfloat list" where
  "iadd out v =
     (if length v = length out then Inr (map2 fadd out v)
      else if length v = 1 then Inr (map (\<lambda>x. fadd x (hd v)) out)
      else Inl ValueError)"

text \<open>A scalar times an array.\<close>

definition scale :: "npfloat \<Rightarrow> npfloat list \<Rightarrow> npfloat list" where
  "scale c v = map (fmul c) v"

subsection \<open>The loss policies: the two subclasses\<close>

datatype policy = Classifier | Regressor

text \<open>\<open>1 / (1 + np.exp(-prediction))\<close>, as the classifier writes it twice.\<close>

definition sigmoid :: "npfloat \<Rightarrow> npfloat" where
  "sigmoid prediction = fdiv (Fin 1) (fadd (Fin 1) (fexp (fneg prediction)))"

definition classifier_compute_residuals :: "npfloat list \<Rightarrow> npfloat list \<Rightarrow> error + npfloat list" where
  "classifier_compute_residuals Y prediction = broadcast2 fsub Y (map sigmoid prediction)"

definition classifier_initial_prediction :: "npfloat list \<Rightarrow> npfloat" where
  "classifier_initial_prediction Y =
     (let p = np_clip (np_mean Y) (1 / 10 ^ 10) (1 - 1 / 10 ^ 10)
      in flog (fdiv p (fsub (Fin 1) p)))"

definition classifier_interpret_prediction :: "npfloat \<Rightarrow> npfloat" where
  "classifier_interpret_prediction prediction = np_round (sigmoid prediction)"

definition regressor_compute_residuals :: "npfloat list \<Rightarrow> npfloat list \<Rightarrow> error + npfloat list" where
  "regressor_compute_residuals Y prediction = broadcast2 fsub Y prediction"

definition regressor_initial_prediction :: "npfloat list \<Rightarrow> npfloat" where
  "regressor_initial_prediction Y = np_mean Y"

definition regressor_interpret_prediction :: "npfloat \<Rightarrow> npfloat" where
  "regressor_interpret_prediction prediction = prediction"

text \<open>Method dispatch on the class of the engine.\<close>

fun compute_residuals :: "policy \<Rightarrow> npfloat list \<Rightarrow> npfloat list \<Rightarrow> error + npfloat list" where
  "compute_residuals Classifier = classifier_compute_residuals"
| "compute_residuals Regressor = regressor_compute_residuals"

fun policy_initial_prediction :: "policy \<Rightarrow> npfloat list \<Rightarrow> npfloat" where
  "policy_initial_prediction Classifier = classifier_initial_prediction"
| "policy_initial_prediction Regressor = regressor_initial_prediction"

fun interpret_prediction :: "policy \<Rightarrow> npfloat \<Rightarrow> npfloat" where
  "interpret_prediction Classifier = classifier_interpret_prediction"
| "interpret_prediction Regressor = regressor_interpret_prediction"

subsection \<open>The weak learner\<close>

text \<open>
  \<open>models.decision_tree.DecisionTreeRegressor\<close> is imported, not defined, by the module.
  It is a parameter of the model: \<open>wl_fit W d X r\<close> is the estimator that
  \<open>DecisionTreeRegressor(max_depth=d)\<close> is after \<open>fit(X, r)\<close>, and \<open>wl_predict W e X\<close>
  is what \<open>e.predict(X)\<close> returns. Both are functions of their arguments, and both
  return: exceptions of the tree itself are outside the model.
\<close>

record ('x, 'l) weak_learner =
  wl_fit :: "int \<Rightarrow> 'x list \<Rightarrow> npfloat list \<Rightarrow> 'l"
  wl_predict :: "'l \<Rightarrow> 'x list \<Rightarrow> npfloat list"

subsection \<open>The engine\<close>

text \<open>
  The instance attributes. \<open>initial_prediction\<close> is not assigned by \<open>__init__\<close>:
  \<open>None\<close> is the attribute that does not exist yet.
\<close>

record 'l engine =
  estimators :: "'l list"
  max_depth :: int
  n_estimators :: int
  learning_rate :: npfloat
  initial_prediction :: "npfloat option"

definition gbt_init :: "int \<Rightarrow> int \<Rightarrow> npfloat \<Rightarrow> 'l engine" where
  "gbt_init n d lr =
     \<lparr>estimators = [], max_depth = d, n_estimators = n, learning_rate = lr,
      initial_prediction = None\<rparr>"

text \<open>
  The body of the \<open>for\<close> loop of \<open>fit\<close>, run \<open>n\<close> more times on the working vector
  \<open>predictions\<close>. The result is the outcome and the engine as the loop leaves it: an
  exception leaves the estimators appended so far.
\<close>

fun fit_loop ::
  "('x, 'l) weak_learner \<Rightarrow> policy \<Rightarrow> 'x list \<Rightarrow> npfloat list \<Rightarrow> nat \<Rightarrow> npfloat list \<Rightarrow>
   'l engine \<Rightarrow> (error + unit) \<times> 'l engine" where
  "fit_loop W k X Y 0 predictions E = (Inr (), E)"
| "fit_loop W k X Y (Suc n) predictions E =
     (case compute_residuals k Y predictions of
        Inl e \<Rightarrow> (Inl e, E)
      | Inr residuals \<Rightarrow>
          (let estimator = wl_fit W (max_depth E) X residuals
           in case iadd predictions (scale (learning_rate E) (wl_predict W estimator X)) of
                Inl e \<Rightarrow> (Inl e, E)
              | Inr predictions' \<Rightarrow>
                  fit_loop W k X Y n predictions' (E\<lparr>estimators := estimators E @ [estimator]\<rparr>)))"

definition fit ::
  "('x, 'l) weak_learner \<Rightarrow> policy \<Rightarrow> 'l engine \<Rightarrow> 'x list \<Rightarrow> npfloat list \<Rightarrow>
   (error + unit) \<times> 'l engine" where
  "fit W k E X Y =
     (let E1 = E\<lparr>initial_prediction := Some (policy_initial_prediction k Y)\<rparr>;
          predictions = replicate (length Y) (the (initial_prediction E1))
      in fit_loop W k X Y (nat (n_estimators E1)) predictions E1)"

text \<open>The \<open>for\<close> loop of \<open>predict\<close> over the estimators.\<close>

fun predict_loop ::
  "('x, 'l) weak_learner \<Rightarrow> npfloat \<Rightarrow> 'x list \<Rightarrow> 'l list \<Rightarrow> npfloat list \<Rightarrow> error + npfloat list" where
  "predict_loop W lr X [] predictions = Inr predictions"
| "predict_loop W lr X (estimator # rest) predictions =
     (case iadd predictions (scale lr (wl_predict W estimator X)) of
        Inl e \<Rightarrow> Inl e
      | Inr predictions' \<Rightarrow> predict_loop W lr X rest predictions')"

definition predict ::
  "('x, 'l) weak_learner \<Rightarrow> policy \<Rightarrow> 'l engine \<Rightarrow> 'x list \<Rightarrow> (error + npfloat list) \<times> 'l engine" where
  "predict W k E X =
     (case initial_prediction E of
        None \<Rightarrow> (Inl AttributeError, E)
      | Some ip \<Rightarrow>
          (case predict_loop W (learning_rate E) X (estimators E) (replicate (length X) ip) of
             Inl e \<Rightarrow> (Inl e, E)
           | Inr predictions \<Rightarrow> (Inr (map (interpret_prediction k) predictions), E)))"

subsection \<open>The boosting rounds, as the specification words them\<close>

text \<open>
  One round on the pair of the working prediction vector and the ensemble: (1) the residuals
  of the policy on the targets and the working vector, (2) a new weak learner of depth \<open>d\<close>
  fitted on the features and the residuals, (3) \<open>predictions[j] += lr * update[j]\<close> for every
  sample \<open>j\<close>, (4) the learner appended to the ensemble. Where the policy has no residuals
  to give, the round does nothing; \<open>fit_is_boosting_rounds\<close> shows that this never happens
  in a round of \<open>fit\<close>.
\<close>

definition boosting_round ::
  "('x, 'l) weak_learner \<Rightarrow> policy \<Rightarrow> int \<Rightarrow> npfloat \<Rightarrow> 'x list \<Rightarrow> npfloat list \<Rightarrow>
   npfloat list \<times> 'l list \<Rightarrow> npfloat list \<times> 'l list" where
  "boosting_round W k d lr X Y s =
     (case s of (predictions, ensemble) \<Rightarrow>
        (case compute_residuals k Y predictions of
           Inl e \<Rightarrow> s
         | Inr residuals \<Rightarrow>
             (let learner = wl_fit W d X residuals;
                  update = wl_predict W learner X
              in (map (\<lambda>j. fadd (predictions ! j) (fmul lr (update ! j))) [0..<length predictions],
                  ensemble @ [learner]))))"

text \<open>
  The working vector and the ensemble after \<open>i\<close> rounds, from the vector of length \<open>N\<close>
  that holds the initial prediction of the policy in every entry and from the ensemble of
  the engine.
\<close>

definition boosting_rounds ::
  "('x, 'l) weak_learner \<Rightarrow> policy \<Rightarrow> 'l engine \<Rightarrow> 'x list \<Rightarrow> npfloat list \<Rightarrow> nat \<Rightarrow>
   npfloat list \<times> 'l list" where
  "boosting_rounds W k E X Y i =
     (boosting_round W k (max_depth E) (learning_rate E) X Y ^^ i)
       (replicate (length Y) (policy_initial_prediction k Y), estimators E)"

subsection \<open>Running the engine\<close>

text \<open>A caller that constructs an engine, fits it and asks for predictions.\<close>

definition fit_then_predict ::
  "('x, 'l) weak_learner \<Rightarrow> policy \<Rightarrow> int \<Rightarrow> int \<Rightarrow> npfloat \<Rightarrow> 'x list \<Rightarrow> npfloat list \<Rightarrow> 'x list \<Rightarrow>
   error + npfloat list" where
  "fit_then_predict W k n d lr X Y X' =
     (case fit W k (gbt_init n d lr) X Y of
        (Inl e, E) \<Rightarrow> Inl e
      | (Inr u, E) \<Rightarrow> fst (predict W k E X'))"

text \<open>
  A weak learner to run the engine on concrete data. It is not the decision tree of the
  repository: it keeps the training rows with their targets, and predicts for a row the
  target it was trained with (0 for a row it has not seen), as a tree grown until every
  leaf holds one sample does on its training set.
\<close>

definition table_learner :: "(real list, (real list \<times> npfloat) list) weak_learner" where
  "table_learner =
     \<lparr>wl_fit = (\<lambda>d X r. zip X r),
      wl_predict = (\<lambda>l X. map (\<lambda>x. case map_of l x of Some v \<Rightarrow> v | None \<Rightarrow> Fin 0) X)\<rparr>"

section \<open>Properties\<close>

subsection \<open>Arithmetic of the scalars and arrays\<close>

lemma map2_nth:
  "length a = length b \<Longrightarrow> map2 f a b = map (\<lambda>j. f (a ! j) (b ! j)) [0..<length a]"
  by (rule nth_equalityI) simp_all

lemma foldl_fadd_Fin: "foldl fadd (Fin a) (map Fin ys) = Fin (a + sum_list ys)"
  by (induction ys arbitrary: a) (simp_all add: add.assoc)

lemma np_sum_Fin: "np_sum (map Fin ys) = Fin (sum_list ys)"
  by (simp add: np_sum_def foldl_fadd_Fin)

lemma np_mean_Fin:
  "np_mean (map Fin ys) = (if ys = [] then NaN else Fin (sum_list ys / real (length ys)))"
  by (simp add: np_mean_def np_sum_Fin)

lemma sigmoid_Fin: "sigmoid (Fin x) = Fin (1 / (1 + exp (- x)))"
proof -
  have "0 < 1 + exp (- x)" by (simp add: add_pos_pos)
  then show ?thesis by (simp add: sigmoid_def)
qed

lemma sigmoid_NaN: "sigmoid NaN = NaN"
  by (simp add: sigmoid_def)

lemma sigmoid_bounds: "0 < 1 / (1 + exp (- x :: real)) \<and> 1 / (1 + exp (- x :: real)) < 1"
proof -
  have "1 < 1 + exp (- x)" by simp
  then show ?thesis by (simp add: add_pos_pos)
qed

lemma round_half_even_unit:
  assumes "0 < y" "y < 1"
  shows "round_half_even y = (if y \<le> 1 / 2 then 0 else 1)"
proof -
  from assms have "\<lfloor>y\<rfloor> = 0" by (simp add: floor_eq_iff)
  then show ?thesis by (simp add: round_half_even_def)
qed

lemma log_odds_Fin:
  assumes "0 < p" "p < (1::real)"
  shows "flog (fdiv (Fin p) (fsub (Fin 1) (Fin p))) = Fin (ln (p / (1 - p)))"
proof -
  from assms have "0 < 1 - p" by simp
  with assms have "0 < p / (1 - p)" by simp
  with \<open>0 < 1 - p\<close> show ?thesis by simp
qed

lemma classifier_initial_prediction_Fin:
  assumes "np_mean Y = Fin m"
  shows "classifier_initial_prediction Y =
     Fin (ln (min (1 - 1 / 10 ^ 10) (max m (1 / 10 ^ 10)) /
              (1 - min (1 - 1 / 10 ^ 10) (max m (1 / 10 ^ 10)))))"
proof -
  let ?p = "min (1 - 1 / 10 ^ 10) (max m (1 / 10 ^ 10 :: real))"
  have "0 < ?p" "?p < 1" by simp_all
  then have "flog (fdiv (Fin ?p) (fsub (Fin 1) (Fin ?p))) = Fin (ln (?p / (1 - ?p)))"
    by (rule log_odds_Fin)
  with assms show ?thesis
    by (simp only: classifier_initial_prediction_def Let_def np_clip.simps)
qed

lemma classifier_initial_prediction_NaN:
  "np_mean Y = NaN \<Longrightarrow> classifier_initial_prediction Y = NaN"
  by (simp add: classifier_initial_prediction_def)

lemma broadcast2_same_length:
  "length a = length b \<Longrightarrow>
   broadcast2 f a b = Inr (map (\<lambda>j. f (a ! j) (b ! j)) [0..<length a])"
  by (simp add: broadcast2_def map2_nth)

lemma compute_residuals_same_length:
  "length Y = length P \<Longrightarrow> \<exists>r. compute_residuals k Y P = Inr r"
  by (cases k)
     (simp_all add: classifier_compute_residuals_def regressor_compute_residuals_def broadcast2_def)

lemma iadd_scale_same_length:
  "length v = length P \<Longrightarrow>
   iadd P (scale lr v) = Inr (map (\<lambda>j. fadd (P ! j) (fmul lr (v ! j))) [0..<length P])"
  by (simp add: iadd_def scale_def map2_nth)

subsection \<open>The loss policies\<close>

text \<open>
  C4. The initial prediction of the classifier is the log-odds of the clamped mean, for
  every target vector \<open>Y\<close>: where \<open>np.mean(Y)\<close> is a number \<open>m\<close>, it is
  \<open>ln (p / (1 - p))\<close> for \<open>p\<close> the value \<open>m\<close> clamped into \<open>[1e-10, 1 - 1e-10]\<close>; where
  the mean is nan (the empty vector, or a nan among the targets), the clamp and the logarithm
  pass nan on. The mean of a non-empty vector of numbers is their sum over their count, the
  clamped value lies in \<open>[1e-10, 1 - 1e-10]\<close>, and for the targets \<open>[1, 1, 1, 0]\<close> the
  result is \<open>ln 3\<close>.
\<close>

theorem classifier_initial_prediction_log_odds:
  "policy_initial_prediction Classifier Y =
     (case np_mean Y of
        NaN \<Rightarrow> NaN
      | Fin m \<Rightarrow> (let p = min (1 - 1 / 10 ^ 10) (max m (1 / 10 ^ 10)) in Fin (ln (p / (1 - p))))) \<and>
   np_mean (map Fin ys) = (if ys = [] then NaN else Fin (sum_list ys / real (length ys))) \<and>
   1 / 10 ^ 10 \<le> min (1 - 1 / 10 ^ 10) (max m (1 / 10 ^ 10 :: real)) \<and>
   min (1 - 1 / 10 ^ 10) (max m (1 / 10 ^ 10 :: real)) \<le> 1 - 1 / 10 ^ 10 \<and>
   policy_initial_prediction Classifier [Fin 1, Fin 1, Fin 1, Fin 0] = Fin (ln 3)"
proof -
  have a: "classifier_initial_prediction Y =
     (case np_mean Y of
        NaN \<Rightarrow> NaN
      | Fin m \<Rightarrow> (let p = min (1 - 1 / 10 ^ 10) (max m (1 / 10 ^ 10)) in Fin (ln (p / (1 - p)))))"
    by (cases "np_mean Y")
       (simp_all add: classifier_initial_prediction_NaN classifier_initial_prediction_Fin Let_def)
  have "np_mean [Fin 1, Fin 1, Fin 1, Fin 0] = Fin (3 / 4)"
    using np_mean_Fin[of "[1, 1, 1, 0]"] by simp
  then have e: "classifier_initial_prediction [Fin 1, Fin 1, Fin 1, Fin 0] = Fin (ln 3)"
    by (simp add: classifier_initial_prediction_Fin[of _ "3 / 4"])
  show ?thesis
    using a e by (simp add: np_mean_Fin)
qed

text \<open>
  C5. On every real \<open>x\<close>, the classifier interprets \<open>x\<close> as its sigmoid rounded to an
  integer, which is 0 or 1: 0 where the sigmoid is below 0.5, 1 where it is above. (At
  \<open>x = 0\<close> the sigmoid is 0.5 and the rounding, half to even, gives 0.)
\<close>

theorem classifier_interpret_zero_or_one:
  "interpret_prediction Classifier (Fin x) = Fin (round_half_even (1 / (1 + exp (- x)))) \<and>
   interpret_prediction Classifier (Fin x) \<in> {Fin 0, Fin 1} \<and>
   (1 / (1 + exp (- x)) < 1 / 2 \<longrightarrow> interpret_prediction Classifier (Fin x) = Fin 0) \<and>
   (1 / 2 < 1 / (1 + exp (- x)) \<longrightarrow> interpret_prediction Classifier (Fin x) = Fin 1) \<and>
   interpret_prediction Classifier (Fin 0) = Fin 0"
  using sigmoid_bounds[of x] sigmoid_bounds[of 0]
  by (simp add: classifier_interpret_prediction_def sigmoid_Fin round_half_even_unit)

theorem classifier_interpret_zero_or_one_witness:
  "1 / (1 + exp (- (- 1 :: real))) < 1 / 2 \<and> interpret_prediction Classifier (Fin (- 1)) = Fin 0 \<and>
   1 / 2 < 1 / (1 + exp (- (1 :: real))) \<and> interpret_prediction Classifier (Fin 1) = Fin 1"
proof -
  have "1 < exp (1 :: real)" by simp
  then have "1 / (1 + exp (1 :: real)) < 1 / 2"
    by (intro divide_strict_left_mono) (simp_all add: add_pos_pos)
  then have a: "1 / (1 + exp (- (- 1 :: real))) < 1 / 2"
    by simp
  have "exp (- (1 :: real)) < 1" by simp
  then have b: "1 / 2 < 1 / (1 + exp (- (1 :: real)))"
    by (intro divide_strict_left_mono) (simp_all add: add_pos_pos)
  have c: "interpret_prediction Classifier (Fin (- 1)) = Fin 0"
    using classifier_interpret_zero_or_one[of "- 1"] a by blast
  have d: "interpret_prediction Classifier (Fin 1) = Fin 1"
    using classifier_interpret_zero_or_one[of 1] b by blast
  show ?thesis
    by (intro conjI a b c d)
qed

text \<open>
  C6. The regressor: on targets and predictions of equal length the residuals are
  \<open>targets[j] - predictions[j]\<close> at every index \<open>j\<close>; the initial prediction is
  \<open>np.mean\<close> of the targets, the arithmetic mean of a non-empty vector of numbers; the
  interpretation of a value is the value.
\<close>

theorem regressor_policy:
  "(length Y = length P \<longrightarrow>
      compute_residuals Regressor Y P = Inr (map (\<lambda>j. fsub (Y ! j) (P ! j)) [0..<length Y])) \<and>
   (length ys = length ps \<longrightarrow>
      compute_residuals Regressor (map Fin ys) (map Fin ps) =
        Inr (map (\<lambda>j. Fin (ys ! j - ps ! j)) [0..<length ys])) \<and>
   policy_initial_prediction Regressor Y = np_mean Y \<and>
   (ys \<noteq> [] \<longrightarrow>
      policy_initial_prediction Regressor (map Fin ys) = Fin (sum_list ys / real (length ys))) \<and>
   interpret_prediction Regressor v = v"
  by (simp add: regressor_compute_residuals_def broadcast2_same_length
      regressor_initial_prediction_def np_mean_Fin regressor_interpret_prediction_def)

theorem regressor_policy_witness:
  "length [Fin 2, Fin 4, Fin 6] = length [Fin 4, Fin 4, NaN] \<and>
   compute_residuals Regressor [Fin 2, Fin 4, Fin 6] [Fin 4, Fin 4, NaN] =
     Inr [Fin (- 2), Fin 0, NaN] \<and>
   length [2, 4, 6 :: real] = length [4, 4, 4 :: real] \<and>
   compute_residuals Regressor (map Fin [2, 4, 6]) (map Fin [4, 4, 4]) =
     Inr [Fin (- 2), Fin 0, Fin 2] \<and>
   [2, 4, 6 :: real] \<noteq> [] \<and>
   policy_initial_prediction Regressor (map Fin [2, 4, 6]) = Fin 4 \<and>
   interpret_prediction Regressor (Fin 4) = Fin 4"
proof -
  note t = regressor_policy[of "[Fin 2, Fin 4, Fin 6]" "[Fin 4, Fin 4, NaN]" "[2, 4, 6]"
      "[4, 4, 4]" "Fin 4"]
  have a: "length [Fin 2, Fin 4, Fin 6] = length [Fin 4, Fin 4, NaN]" by simp
  have b: "length [2, 4, 6 :: real] = length [4, 4, 4 :: real]" by simp
  have c: "[2, 4, 6 :: real] \<noteq> []" by simp
  have r1: "compute_residuals Regressor [Fin 2, Fin 4, Fin 6] [Fin 4, Fin 4, NaN] =
     Inr [Fin (- 2), Fin 0, NaN]"
    using t[THEN conjunct1, THEN mp, OF a] by (simp add: upt_rec)
  have r2: "compute_residuals Regressor (map Fin [2, 4, 6]) (map Fin [4, 4, 4]) =
     Inr [Fin (- 2), Fin 0, Fin 2]"
    using t[THEN conjunct2, THEN conjunct1, THEN mp, OF b] by (simp add: upt_rec)
  have r3: "policy_initial_prediction Regressor (map Fin [2, 4, 6]) = Fin 4"
    using t[THEN conjunct2, THEN conjunct2, THEN conjunct2, THEN conjunct1, THEN mp, OF c]
    by simp
  have r4: "interpret_prediction Regressor (Fin 4) = Fin 4"
    using t by blast
  show ?thesis
    by (intro conjI a b c r1 r2 r3 r4)
qed

text \<open>
  C7. The classifier: on targets and predictions of equal length the residuals are
  \<open>targets[j] - sigmoid(predictions[j])\<close> at every index \<open>j\<close>, where the sigmoid of a
  real \<open>x\<close> is \<open>1 / (1 + exp (- x))\<close>, a probability strictly between 0 and 1. The
  prediction vector is an argument of the function and is not converted: it stays in logit
  space.
\<close>

theorem classifier_residuals:
  "(length Y = length P \<longrightarrow>
      compute_residuals Classifier Y P =
        Inr (map (\<lambda>j. fsub (Y ! j) (sigmoid (P ! j))) [0..<length Y])) \<and>
   (length ys = length ps \<longrightarrow>
      compute_residuals Classifier (map Fin ys) (map Fin ps) =
        Inr (map (\<lambda>j. Fin (ys ! j - 1 / (1 + exp (- (ps ! j))))) [0..<length ys])) \<and>
   sigmoid (Fin x) = Fin (1 / (1 + exp (- x))) \<and>
   0 < 1 / (1 + exp (- x)) \<and> 1 / (1 + exp (- x)) < 1"
  using sigmoid_bounds[of x]
  by (simp add: classifier_compute_residuals_def broadcast2_same_length sigmoid_Fin)

theorem classifier_residuals_witness:
  "length [Fin 1, Fin 0] = length [Fin 0, NaN] \<and>
   compute_residuals Classifier [Fin 1, Fin 0] [Fin 0, NaN] = Inr [Fin (1 / 2), NaN] \<and>
   length [1, 0 :: real] = length [0, 0 :: real] \<and>
   compute_residuals Classifier (map Fin [1, 0]) (map Fin [0, 0]) =
     Inr [Fin (1 / 2), Fin (- (1 / 2))]"
proof -
  note t = classifier_residuals[of "[Fin 1, Fin 0]" "[Fin 0, NaN]" "[1, 0]" "[0, 0]" 0]
  have a: "length [Fin 1, Fin 0] = length [Fin 0, NaN]" by simp
  have b: "length [1, 0 :: real] = length [0, 0 :: real]" by simp
  have r1: "compute_residuals Classifier [Fin 1, Fin 0] [Fin 0, NaN] = Inr [Fin (1 / 2), NaN]"
    using t[THEN conjunct1, THEN mp, OF a] by (simp add: upt_rec sigmoid_NaN sigmoid_Fin)
  have r2: "compute_residuals Classifier (map Fin [1, 0]) (map Fin [0, 0]) =
     Inr [Fin (1 / 2), Fin (- (1 / 2))]"
    using t[THEN conjunct2, THEN conjunct1, THEN mp, OF b] by (simp add: upt_rec)
  show ?thesis
    by (intro conjI a b r1 r2)
qed

subsection \<open>What the loops leave alone\<close>

lemma fit_loop_hyperparameters:
  "max_depth (snd (fit_loop W k X Y n P E)) = max_depth E \<and>
   n_estimators (snd (fit_loop W k X Y n P E)) = n_estimators E \<and>
   learning_rate (snd (fit_loop W k X Y n P E)) = learning_rate E \<and>
   initial_prediction (snd (fit_loop W k X Y n P E)) = initial_prediction E"
  by (induction n arbitrary: P E) (simp_all add: Let_def split: sum.splits)

text \<open>
  C9. On an engine as \<open>__init__\<close> leaves it, \<open>predict\<close> returns no vector: it raises
  AttributeError (the attribute \<open>initial_prediction\<close> does not exist), whatever the
  features, the class and the weak learner, and the engine after the call is the engine
  before it.
\<close>

theorem predict_before_fit_fails:
  "predict W k (gbt_init n d lr) X = (Inl AttributeError, gbt_init n d lr)"
  by (simp add: predict_def gbt_init_def)

text \<open>
  C10. \<open>predict\<close> leaves every attribute of the engine as it was (the list of estimators,
  \<open>initial_prediction\<close> and the three hyperparameters), whether it returns or raises;
  \<open>fit\<close> leaves \<open>n_estimators\<close>, \<open>max_depth\<close> and \<open>learning_rate\<close> as they were,
  whether it returns or raises.
\<close>

theorem predict_and_fit_frame:
  "snd (predict W k E X) = E \<and>
   n_estimators (snd (fit W k E X Y)) = n_estimators E \<and>
   max_depth (snd (fit W k E X Y)) = max_depth E \<and>
   learning_rate (snd (fit W k E X Y)) = learning_rate E"
  by (simp add: predict_def fit_def Let_def fit_loop_hyperparameters split: option.splits sum.splits)

subsection \<open>fit\<close>

lemma boosting_round_length:
  "length (fst (boosting_round W k d lr X Y (P, Ls))) = length P"
  by (simp add: boosting_round_def Let_def split: sum.splits)

lemma funpow_boosting_round_length:
  "length (fst ((boosting_round W k d lr X Y ^^ i) (P, Ls))) = length P"
proof (induction i)
  case 0
  then show ?case by simp
next
  case (Suc i)
  then show ?case
    using boosting_round_length[of W k d lr X Y
        "fst ((boosting_round W k d lr X Y ^^ i) (P, Ls))"
        "snd ((boosting_round W k d lr X Y ^^ i) (P, Ls))"]
    by simp
qed

lemma funpow_boosting_round_ensemble:
  assumes "length P = length Y"
  shows "length (snd ((boosting_round W k d lr X Y ^^ i) (P, Ls))) = length Ls + i"
proof (induction i)
  case 0
  then show ?case by simp
next
  case (Suc i)
  obtain Pi Li where s: "(boosting_round W k d lr X Y ^^ i) (P, Ls) = (Pi, Li)"
    by (cases "(boosting_round W k d lr X Y ^^ i) (P, Ls)")
  have "length Pi = length Y"
    using funpow_boosting_round_length[of i W k d lr X Y P Ls] s assms by simp
  then obtain r where "compute_residuals k Y Pi = Inr r"
    using compute_residuals_same_length[of Y Pi k] by auto
  then have "snd (boosting_round W k d lr X Y (Pi, Li)) = Li @ [wl_fit W d X r]"
    by (simp add: boosting_round_def Let_def)
  with Suc s show ?case
    by simp
qed

lemma fit_loop_rounds:
  assumes "\<forall>l. length (wl_predict W l X) = length Y" and "length P = length Y"
  shows "fit_loop W k X Y n P E =
     (Inr (), E\<lparr>estimators :=
        snd ((boosting_round W k (max_depth E) (learning_rate E) X Y ^^ n) (P, estimators E))\<rparr>)"
  using assms(2)
proof (induction n arbitrary: P E)
  case 0
  then show ?case by simp
next
  case (Suc n)
  from Suc.prems obtain r where r: "compute_residuals k Y P = Inr r"
    using compute_residuals_same_length[of Y P k] by auto
  let ?l = "wl_fit W (max_depth E) X r"
  let ?P = "map (\<lambda>j. fadd (P ! j) (fmul (learning_rate E) (wl_predict W ?l X ! j))) [0..<length P]"
  have upd: "iadd P (scale (learning_rate E) (wl_predict W ?l X)) = Inr ?P"
    using assms(1) Suc.prems by (simp add: iadd_scale_same_length)
  have step: "boosting_round W k (max_depth E) (learning_rate E) X Y (P, estimators E) =
      (?P, estimators E @ [?l])"
    by (simp add: boosting_round_def r Let_def)
  have "length ?P = length Y" using Suc.prems by simp
  from Suc.IH[OF this, of "E\<lparr>estimators := estimators E @ [?l]\<rparr>"]
  show ?case
    by (simp add: r upd Let_def funpow_swap1 step)
qed

text \<open>
  C1. Let \<open>X\<close> have one row per target and let the weak learner predict one value per row
  of \<open>X\<close>. Then \<open>fit\<close> returns, and the engine it leaves has \<open>initial_prediction\<close> set to
  the initial prediction of the policy on \<open>Y\<close> and, as its ensemble, the ensemble after
  exactly \<open>n_estimators\<close> boosting rounds (none for a negative count) that start from the
  working vector of length \<open>N\<close> filled with that initial prediction: each round computes
  the residuals of the policy, fits a new learner on them, adds \<open>learning_rate\<close> times its
  predictions to the working vector at every index and appends the learner. Nothing else of
  the engine changes. No round is skipped: after any number \<open>i\<close> of rounds the working
  vector has length \<open>N\<close>, the policy has residuals for it, and the ensemble has grown by
  \<open>i\<close> learners.
\<close>

theorem fit_is_boosting_rounds:
  assumes "length X = length Y" and "\<forall>l. length (wl_predict W l X) = length X"
  shows "fit W k E X Y =
           (Inr (), E\<lparr>initial_prediction := Some (policy_initial_prediction k Y),
                       estimators := snd (boosting_rounds W k E X Y (nat (n_estimators E)))\<rparr>) \<and>
         boosting_rounds W k E X Y 0 =
           (replicate (length Y) (policy_initial_prediction k Y), estimators E) \<and>
         boosting_rounds W k E X Y (Suc i) =
           boosting_round W k (max_depth E) (learning_rate E) X Y (boosting_rounds W k E X Y i) \<and>
         length (fst (boosting_rounds W k E X Y i)) = length Y \<and>
         (\<exists>residuals. compute_residuals k Y (fst (boosting_rounds W k E X Y i)) = Inr residuals) \<and>
         length (snd (boosting_rounds W k E X Y i)) = length (estimators E) + i"
proof -
  have c: "\<forall>l. length (wl_predict W l X) = length Y" using assms by simp
  have len: "length (fst (boosting_rounds W k E X Y i)) = length Y"
    by (simp add: boosting_rounds_def funpow_boosting_round_length)
  have "fit W k E X Y =
           (Inr (), E\<lparr>initial_prediction := Some (policy_initial_prediction k Y),
                       estimators := snd (boosting_rounds W k E X Y (nat (n_estimators E)))\<rparr>)"
    by (simp add: fit_def Let_def fit_loop_rounds[OF c] boosting_rounds_def)
  moreover have "\<exists>residuals.
      compute_residuals k Y (fst (boosting_rounds W k E X Y i)) = Inr residuals"
    using len by (intro compute_residuals_same_length) simp
  moreover have "length (snd (boosting_rounds W k E X Y i)) = length (estimators E) + i"
    by (simp add: boosting_rounds_def funpow_boosting_round_ensemble)
  ultimately show ?thesis
    using len by (simp add: boosting_rounds_def)
qed

theorem fit_is_boosting_rounds_witness:
  "length [[0], [1 :: real]] = length [Fin 0, Fin 2] \<and>
   (\<forall>l. length (wl_predict table_learner l [[0], [1]]) = length [[0], [1 :: real]]) \<and>
   fit table_learner Regressor (gbt_init 2 1 (Fin (1 / 2))) [[0], [1]] [Fin 0, Fin 2] =
     (Inr (), \<lparr>estimators = [[([0], Fin (- 1)), ([1], Fin 1)],
                              [([0], Fin (- (1 / 2))), ([1], Fin (1 / 2))]],
               max_depth = 1, n_estimators = 2, learning_rate = Fin (1 / 2),
               initial_prediction = Some (Fin 1)\<rparr>)"
proof -
  have a: "length [[0], [1 :: real]] = length [Fin 0, Fin 2]" by simp
  have b: "\<forall>l. length (wl_predict table_learner l [[0], [1]]) = length [[0], [1 :: real]]"
    by (simp add: table_learner_def)
  have c: "fit table_learner Regressor (gbt_init 2 1 (Fin (1 / 2))) [[0], [1]] [Fin 0, Fin 2] =
     (Inr (), \<lparr>estimators = [[([0], Fin (- 1)), ([1], Fin 1)],
                              [([0], Fin (- (1 / 2))), ([1], Fin (1 / 2))]],
               max_depth = 1, n_estimators = 2, learning_rate = Fin (1 / 2),
               initial_prediction = Some (Fin 1)\<rparr>)"
    using fit_is_boosting_rounds[where k = Regressor and E = "gbt_init 2 1 (Fin (1 / 2))",
        OF a b, THEN conjunct1]
    by (simp add: gbt_init_def boosting_rounds_def boosting_round_def
        regressor_initial_prediction_def np_mean_def np_sum_def regressor_compute_residuals_def
        broadcast2_def table_learner_def numeral_2_eq_2 upt_rec)
  show ?thesis
    by (intro conjI a b c)
qed

text \<open>
  C3. \<open>fit\<close> assigns \<open>initial_prediction\<close> and appends to \<open>estimators\<close>; it never
  empties the list. A successful \<open>fit\<close> adds exactly \<open>n_estimators\<close> learners behind the
  ones the engine already has. With \<open>n_estimators = 1\<close>, the learning rate 1 and the
  features \<open>[[0], [1]]\<close> with targets \<open>[0, 2]\<close>: the first \<open>fit\<close> leaves one learner and
  \<open>predict\<close> returns \<open>[0, 2]\<close>; a second \<open>fit\<close> on the same data leaves two learners,
  and \<open>predict\<close> returns \<open>[-1, 3]\<close>.
\<close>

theorem refit_keeps_prior_ensemble:
  "(let E0 = gbt_init 1 1 (Fin 1);
        (r1, E1) = fit table_learner Regressor E0 [[0], [1]] [Fin 0, Fin 2];
        (r2, E2) = fit table_learner Regressor E1 [[0], [1]] [Fin 0, Fin 2]
    in r1 = Inr () \<and> r2 = Inr () \<and> n_estimators E2 = 1 \<and>
       length (estimators E1) = 1 \<and> length (estimators E2) = 2 \<and>
       take 1 (estimators E2) = estimators E1 \<and>
       fst (predict table_learner Regressor E1 [[0], [1]]) = Inr [Fin 0, Fin 2] \<and>
       fst (predict table_learner Regressor E2 [[0], [1]]) = Inr [Fin (- 1), Fin 3])"
  by (simp add: gbt_init_def fit_def predict_def regressor_initial_prediction_def np_mean_def
        np_sum_def regressor_compute_residuals_def broadcast2_def table_learner_def
        iadd_def scale_def regressor_interpret_prediction_def)

lemma fit_loop_appends:
  "fit_loop W k X Y n P E = (Inr u, E') \<Longrightarrow>
   \<exists>new. estimators E' = estimators E @ new \<and> length new = n"
proof (induction n arbitrary: P E)
  case 0
  then show ?case by simp
next
  case (Suc n)
  from Suc.prems obtain r P' where
    rec: "fit_loop W k X Y n P'
            (E\<lparr>estimators := estimators E @ [wl_fit W (max_depth E) X r]\<rparr>) = (Inr u, E')"
    by (auto simp: Let_def split: sum.splits)
  from Suc.IH[OF rec] obtain new where
    "estimators E' = (estimators E @ [wl_fit W (max_depth E) X r]) @ new" "length new = n"
    by auto
  then show ?case by simp
qed

lemma fit_appends:
  "fit W k E X Y = (Inr u, E') \<Longrightarrow>
   \<exists>new. estimators E' = estimators E @ new \<and> length new = nat (n_estimators E)"
  using fit_loop_appends[of W k X Y "nat (n_estimators E)" _
      "E\<lparr>initial_prediction := Some (policy_initial_prediction k Y)\<rparr>" u E']
  by (simp add: fit_def Let_def)

subsection \<open>predict\<close>

lemma predict_loop_fold:
  assumes "\<forall>l\<in>set ests. length (wl_predict W l X) = length P"
  shows "predict_loop W lr X ests P =
     Inr (map (\<lambda>j. foldl (\<lambda>acc l. fadd acc (fmul lr (wl_predict W l X ! j))) (P ! j) ests)
            [0..<length P])"
  using assms
proof (induction ests arbitrary: P)
  case Nil
  then show ?case by (simp add: map_nth)
next
  case (Cons l ests)
  let ?P = "map (\<lambda>j. fadd (P ! j) (fmul lr (wl_predict W l X ! j))) [0..<length P]"
  have upd: "iadd P (scale lr (wl_predict W l X)) = Inr ?P"
    using Cons.prems by (simp add: iadd_scale_same_length)
  have "\<forall>l\<in>set ests. length (wl_predict W l X) = length ?P"
    using Cons.prems by simp
  from Cons.IH[OF this] show ?case
    by (simp add: upd)
qed

text \<open>
  C2. On an engine whose \<open>initial_prediction\<close> is set to \<open>ip\<close> and whose learners predict
  one value per row of \<open>X\<close>, \<open>predict\<close> returns a vector with one entry per row of \<open>X\<close>.
  Entry \<open>j\<close> is the interpretation, by the policy, of the sum that starts from \<open>ip\<close> and
  adds \<open>learning_rate * learner.predict(X)[j]\<close> for the learners of the ensemble from the
  first to the last: the interpretation is applied once, to the finished sum.
\<close>

theorem predict_is_interpreted_sum:
  assumes "initial_prediction E = Some ip"
    and "\<forall>l\<in>set (estimators E). length (wl_predict W l X) = length X"
  shows "\<exists>out. fst (predict W k E X) = Inr out \<and> length out = length X \<and>
           (\<forall>j<length X. out ! j =
              interpret_prediction k
                (foldl (\<lambda>acc l. fadd acc (fmul (learning_rate E) (wl_predict W l X ! j)))
                   ip (estimators E)))"
proof -
  have "\<forall>l\<in>set (estimators E). length (wl_predict W l X) = length (replicate (length X) ip)"
    using assms(2) by simp
  from predict_loop_fold[OF this, of "learning_rate E"] assms(1)
  show ?thesis
    by (simp add: predict_def)
qed

theorem predict_is_interpreted_sum_witness:
  "initial_prediction
     \<lparr>estimators = [[([0], Fin (- 1)), ([1], Fin 1)], [([0], Fin (- (1 / 2))), ([1], Fin (1 / 2))]],
      max_depth = 1, n_estimators = 2, learning_rate = Fin (1 / 2),
      initial_prediction = Some (Fin 1)\<rparr> = Some (Fin 1) \<and>
   length (wl_predict table_learner [([0], Fin (- 1)), ([1], Fin 1)] [[0], [1]]) =
     length [[0], [1 :: real]] \<and>
   length (wl_predict table_learner [([0], Fin (- (1 / 2))), ([1], Fin (1 / 2))] [[0], [1]]) =
     length [[0], [1 :: real]] \<and>
   fst (predict table_learner Classifier
     \<lparr>estimators = [[([0], Fin (- 1)), ([1], Fin 1)], [([0], Fin (- (1 / 2))), ([1], Fin (1 / 2))]],
      max_depth = 1, n_estimators = 2, learning_rate = Fin (1 / 2),
      initial_prediction = Some (Fin 1)\<rparr> [[0], [1]]) =
     Inr [interpret_prediction Classifier (Fin (1 / 4)),
          interpret_prediction Classifier (Fin (7 / 4))]"
proof -
  let ?E = "\<lparr>estimators = [[([0 :: real], Fin (- 1)), ([1], Fin 1)],
                            [([0], Fin (- (1 / 2))), ([1], Fin (1 / 2))]],
             max_depth = 1, n_estimators = 2, learning_rate = Fin (1 / 2),
             initial_prediction = Some (Fin 1)\<rparr>"
  have a: "initial_prediction ?E = Some (Fin 1)" by simp
  have b: "\<forall>l\<in>set (estimators ?E).
      length (wl_predict table_learner l [[0], [1]]) = length [[0], [1 :: real]]"
    by (simp add: table_learner_def)
  from predict_is_interpreted_sum[OF a b, of Classifier] obtain out where
    o: "fst (predict table_learner Classifier ?E [[0], [1]]) = Inr out" "length out = 2"
    and e: "\<forall>j<2. out ! j = interpret_prediction Classifier
                (foldl (\<lambda>acc l. fadd acc
                          (fmul (learning_rate ?E) (wl_predict table_learner l [[0], [1]] ! j)))
                   (Fin 1) (estimators ?E))"
    by auto
  from e have "out ! 0 = interpret_prediction Classifier (Fin (1 / 4))"
    "out ! 1 = interpret_prediction Classifier (Fin (7 / 4))"
    by (simp_all add: table_learner_def)
  with o(2) have "out = [interpret_prediction Classifier (Fin (1 / 4)),
                         interpret_prediction Classifier (Fin (7 / 4))]"
    by (cases out; cases "tl out"; cases "tl (tl out)") auto
  with o(1) a b show ?thesis by (simp add: table_learner_def)
qed

subsection \<open>Determinism\<close>

text \<open>
  C8. With the weak learner a function of its arguments: the vector that \<open>predict\<close>
  returns is determined by the ensemble, \<open>initial_prediction\<close>, \<open>learning_rate\<close> and the
  features (for the policy of the engine's class; \<open>max_depth\<close> and \<open>n_estimators\<close> play no
  part); a second \<open>predict\<close> on the engine that the first one leaves returns the same;
  and two runs that construct an engine from the same hyperparameters, fit it on the same
  data and predict on the same features return the same.
\<close>

theorem predict_deterministic:
  "(estimators E1 = estimators E2 \<and> initial_prediction E1 = initial_prediction E2 \<and>
    learning_rate E1 = learning_rate E2 \<longrightarrow> fst (predict W k E1 X) = fst (predict W k E2 X)) \<and>
   fst (predict W k (snd (predict W k E X)) X) = fst (predict W k E X) \<and>
   (n1 = n2 \<and> d1 = d2 \<and> lr1 = lr2 \<and> X1 = X2 \<and> Y1 = Y2 \<and> X1' = X2' \<longrightarrow>
      fit_then_predict W k n1 d1 lr1 X1 Y1 X1' = fit_then_predict W k n2 d2 lr2 X2 Y2 X2')"
  by (auto simp: predict_def split: option.splits sum.splits)

theorem predict_deterministic_witness:
  "(estimators \<lparr>estimators = [[([0], Fin 1)]], max_depth = 1, n_estimators = 1,
                 learning_rate = Fin 1, initial_prediction = Some (Fin 1)\<rparr> =
    estimators \<lparr>estimators = [[([0], Fin 1)]], max_depth = 7, n_estimators = 9,
                 learning_rate = Fin 1, initial_prediction = Some (Fin 1)\<rparr> \<and>
    initial_prediction \<lparr>estimators = [[([0], Fin 1)]], max_depth = 1, n_estimators = 1,
                 learning_rate = Fin 1, initial_prediction = Some (Fin 1)\<rparr> =
    initial_prediction \<lparr>estimators = [[([0], Fin 1)]], max_depth = 7, n_estimators = 9,
                 learning_rate = Fin 1, initial_prediction = Some (Fin 1)\<rparr> \<and>
    learning_rate \<lparr>estimators = [[([0], Fin 1)]], max_depth = 1, n_estimators = 1,
                 learning_rate = Fin 1, initial_prediction = Some (Fin 1)\<rparr> =
    learning_rate \<lparr>estimators = [[([0], Fin 1)]], max_depth = 7, n_estimators = 9,
                 learning_rate = Fin 1, initial_prediction = Some (Fin 1)\<rparr>) \<and>
   fst (predict table_learner Regressor
          \<lparr>estimators = [[([0], Fin 1)]], max_depth = 1, n_estimators = 1,
           learning_rate = Fin 1, initial_prediction = Some (Fin 1)\<rparr> [[0], [5]]) =
   fst (predict table_learner Regressor
          \<lparr>estimators = [[([0], Fin 1)]], max_depth = 7, n_estimators = 9,
           learning_rate = Fin 1, initial_prediction = Some (Fin 1)\<rparr> [[0], [5]]) \<and>
   ((1 :: int) = 1 \<and> (2 :: int) = 2 \<and> Fin 1 = Fin 1 \<and> [[0], [1 :: real]] = [[0], [1]] \<and>
    [Fin 0, Fin 2] = [Fin 0, Fin 2] \<and> [[0], [5 :: real]] = [[0], [5]]) \<and>
   fit_then_predict table_learner Regressor 1 2 (Fin 1) [[0], [1]] [Fin 0, Fin 2] [[0], [5]] =
   fit_then_predict table_learner Regressor 1 2 (Fin 1) [[0], [1]] [Fin 0, Fin 2] [[0], [5]]"
proof -
  let ?E1 = "\<lparr>estimators = [[([0 :: real], Fin 1)]], max_depth = 1, n_estimators = 1,
              learning_rate = Fin 1, initial_prediction = Some (Fin 1)\<rparr>"
  let ?E2 = "\<lparr>estimators = [[([0 :: real], Fin 1)]], max_depth = 7, n_estimators = 9,
              learning_rate = Fin 1, initial_prediction = Some (Fin 1)\<rparr>"
  note t = predict_deterministic[of ?E1 ?E2 table_learner Regressor "[[0], [5]]" ?E1
      1 1 2 2 "Fin 1" "Fin 1" "[[0], [1]]" "[[0], [1]]" "[Fin 0, Fin 2]" "[Fin 0, Fin 2]"
      "[[0], [5]]" "[[0], [5]]"]
  have a: "estimators ?E1 = estimators ?E2 \<and> initial_prediction ?E1 = initial_prediction ?E2 \<and>
    learning_rate ?E1 = learning_rate ?E2"
    by simp
  have b: "(1 :: int) = 1 \<and> (2 :: int) = 2 \<and> Fin 1 = Fin 1 \<and> [[0], [1 :: real]] = [[0], [1]] \<and>
    [Fin 0, Fin 2] = [Fin 0, Fin 2] \<and> [[0], [5 :: real]] = [[0], [5]]"
    by simp
  note c = t[THEN conjunct1, THEN mp, OF a]
  note d = t[THEN conjunct2, THEN conjunct2, THEN mp, OF b]
  show ?thesis
    by (intro conjI a[THEN conjunct1] a[THEN conjunct2, THEN conjunct1]
        a[THEN conjunct2, THEN conjunct2] c b[THEN conjunct1] d) simp_all
qed

end
